theory Spec2Isabelle
  imports Main "HOL-Library.Word"
begin

section \<open>JavaScript strings\<close>

text \<open>
  A JavaScript string is a sequence of 16-bit code units; equality, concatenation,
  \<^verbatim>\<open>replace\<close>, \<^verbatim>\<open>join\<close> and \<^verbatim>\<open>trim\<close> all work on code units. The string
  literals of the source are ASCII, so each of their characters is one code unit;
  \<open>lit\<close> embeds such a literal.
\<close>

type_synonym js_string = "16 word list"

definition unit_of :: "char \<Rightarrow> 16 word" where
  "unit_of c = of_nat (of_char c)"

definition lit :: "string \<Rightarrow> js_string" where
  "lit s = map unit_of s"

text \<open>
  \<^verbatim>\<open>String.prototype.trim\<close> removes WhiteSpace and LineTerminator code points from
  both ends: TAB, LF, VT, FF, CR, SP, NBSP, U+1680, U+2000 to U+200A, U+2028, U+2029,
  U+202F, U+205F, U+3000 and U+FEFF. All of them are single code units.
\<close>

definition is_whitespace :: "16 word \<Rightarrow> bool" where
  "is_whitespace u \<longleftrightarrow>
     u = 0x9 \<or> u = 0xA \<or> u = 0xB \<or> u = 0xC \<or> u = 0xD \<or> u = 0x20 \<or> u = 0xA0 \<or>
     u = 0x1680 \<or> (0x2000 \<le> u \<and> u \<le> 0x200A) \<or> u = 0x2028 \<or> u = 0x2029 \<or>
     u = 0x202F \<or> u = 0x205F \<or> u = 0x3000 \<or> u = 0xFEFF"

definition trim :: "js_string \<Rightarrow> js_string" where
  "trim s = rev (dropWhile is_whitespace (rev (dropWhile is_whitespace s)))"

text \<open>\<^verbatim>\<open>Array.prototype.join\<close> on an array of strings.\<close>

fun join :: "js_string \<Rightarrow> js_string list \<Rightarrow> js_string" where
  "join sep [] = []"
| "join sep [x] = x"
| "join sep (x # y # ys) = x @ sep @ join sep (y # ys)"

text \<open>
  \<^verbatim>\<open>s.replace(/^p/, "")\<close> for a literal pattern \<open>p\<close>: the regular expression has
  neither the \<^verbatim>\<open>g\<close> nor the \<^verbatim>\<open>m\<close> flag, so it matches once, at the start of the
  string only.
\<close>

definition replace_prefix :: "js_string \<Rightarrow> js_string \<Rightarrow> js_string" where
  "replace_prefix p s = (if take (length p) s = p then drop (length p) s else s)"


section \<open>The model table and \<open>extractModel\<close>\<close>

text \<open>
  \<^verbatim>\<open>MODEL_MAP\<close> is an object literal, so its prototype is \<^verbatim>\<open>Object.prototype\<close>.
  The table below lists its own properties in source order. A property read
  \<^verbatim>\<open>MODEL_MAP[key]\<close> finds an own property first, then a property of
  \<^verbatim>\<open>Object.prototype\<close>, and is \<^verbatim>\<open>undefined\<close> otherwise. The TypeScript types are
  erased at run time, so the values are modelled as what the engine holds: a string, an
  inherited member of \<^verbatim>\<open>Object.prototype\<close> (a method, or for \<^verbatim>\<open>__proto__\<close> the prototype
  object itself), or \<^verbatim>\<open>undefined\<close>.
\<close>

definition ClaudeModel :: "js_string set" where
  "ClaudeModel = {lit ''opus'', lit ''sonnet'', lit ''haiku''}"

definition MODEL_MAP :: "(js_string \<times> js_string) list" where
  "MODEL_MAP =
    [(lit ''claude-opus-4'', lit ''opus''),
     (lit ''claude-sonnet-4'', lit ''sonnet''),
     (lit ''claude-haiku-4'', lit ''haiku''),
     (lit ''claude-code-cli/claude-opus-4'', lit ''opus''),
     (lit ''claude-code-cli/claude-sonnet-4'', lit ''sonnet''),
     (lit ''claude-code-cli/claude-haiku-4'', lit ''haiku''),
     (lit ''opus'', lit ''opus''),
     (lit ''sonnet'', lit ''sonnet''),
     (lit ''haiku'', lit ''haiku'')]"

definition Object_prototype :: "js_string list" where
  "Object_prototype = map lit
    [''constructor'', ''__proto__'', ''hasOwnProperty'', ''isPrototypeOf'',
     ''propertyIsEnumerable'', ''toLocaleString'', ''toString'', ''valueOf'',
     ''__defineGetter__'', ''__defineSetter__'', ''__lookupGetter__'',
     ''__lookupSetter__'']"

datatype property_value = Undefined | Str js_string | Inherited js_string

definition get_property :: "js_string \<Rightarrow> property_value" where
  "get_property key =
     (case map_of MODEL_MAP key of
        Some v \<Rightarrow> Str v
      | None \<Rightarrow> if key \<in> set Object_prototype then Inherited key else Undefined)"

text \<open>The condition of an \<^verbatim>\<open>if\<close>: the empty string and \<^verbatim>\<open>undefined\<close> are falsy,
  functions and objects are truthy.\<close>

fun truthy :: "property_value \<Rightarrow> bool" where
  "truthy Undefined = False"
| "truthy (Str s) = (s \<noteq> [])"
| "truthy (Inherited k) = True"

definition extractModel :: "js_string \<Rightarrow> property_value" where
  "extractModel model =
     (if truthy (get_property model) then get_property model
      else let stripped = replace_prefix (lit ''claude-code-cli/'') model in
        if truthy (get_property stripped) then get_property stripped
        else Str (lit ''opus''))"


section \<open>Requests\<close>

text \<open>
  The declared types of \<^verbatim>\<open>types/openai.ts\<close>. \<open>role\<close> and \<open>type\<close> are unions of
  string literals, which are strings at run time. The field \<^verbatim>\<open>text\<close> of a content part
  is \<open>text'\<close> here. An optional field is an \<open>option\<close>: \<open>None\<close> is what reading
  the field gives when it is missing or \<^verbatim>\<open>undefined\<close>. The numeric fields of a request
  are never read by the adapter; their type is left open as \<open>'n\<close>.
\<close>

record image_url_ref =
  url :: js_string
  detail :: "js_string option"

record OpenAIContentPart =
  type :: js_string
  text' :: "js_string option"
  image_url :: "image_url_ref option"

text \<open>
  \<open>extractContent\<close> has a third branch for a content that is neither a string nor
  an array. Such a value is outside the declared type; it reaches the adapter when the
  request has been parsed from JSON and not validated. \<open>js_data\<close> are these values:
  \<^verbatim>\<open>undefined\<close> (the field is missing), \<^verbatim>\<open>null\<close>, a boolean, a number (carried as
  the string that \<^verbatim>\<open>Number::toString\<close> gives for it), or a plain object, given by the
  names of its own properties (their values are data, so none of them is callable).
  Everything else is as declared: the model is a string, the messages are records and
  the elements of an array content are parts. A request that departs from the declared
  types in these places is outside the model.
\<close>

datatype js_data =
  JUndefined | JNull | JBoolean bool | JNumber js_string | JObject "js_string list"

datatype content =
  Text js_string | Parts "OpenAIContentPart list" | Other js_data

record OpenAIChatMessage =
  role :: js_string
  content :: content

record 'n OpenAIChatRequest =
  model :: js_string
  messages :: "OpenAIChatMessage list"
  stream :: "bool option"
  temperature :: "'n option"
  max_tokens :: "'n option"
  top_p :: "'n option"
  frequency_penalty :: "'n option"
  presence_penalty :: "'n option"
  user :: "js_string option"

record CliInput =
  prompt :: js_string
  model :: property_value
  sessionId :: "js_string option"


section \<open>\<open>extractContent\<close>\<close>

datatype js_error = TypeError

text \<open>
  \<^verbatim>\<open>String(v)\<close>. For an object it calls \<^verbatim>\<open>toString\<close>, then \<^verbatim>\<open>valueOf\<close>, skipping
  what is not callable and what returns an object, and throws \<^verbatim>\<open>TypeError\<close> when
  neither gives a primitive. Without an own \<^verbatim>\<open>toString\<close> property the inherited
  \<^verbatim>\<open>Object.prototype.toString\<close> answers. An own \<^verbatim>\<open>toString\<close> property holds data and
  is skipped; \<^verbatim>\<open>valueOf\<close> is then either own data, skipped too, or the inherited
  method, which returns the object itself.
\<close>

fun ToString :: "js_data \<Rightarrow> js_error + js_string" where
  "ToString JUndefined = Inr (lit ''undefined'')"
| "ToString JNull = Inr (lit ''null'')"
| "ToString (JBoolean b) = Inr (if b then lit ''true'' else lit ''false'')"
| "ToString (JNumber rendering) = Inr rendering"
| "ToString (JObject names) =
     (if lit ''toString'' \<in> set names then Inl TypeError
      else Inr (lit ''[object Object]''))"

text \<open>The filter callback \<^verbatim>\<open>part.type === "text" && part.text\<close>, read as a boolean:
  a missing text and the empty string are falsy.\<close>

definition is_text_part :: "OpenAIContentPart \<Rightarrow> bool" where
  "is_text_part part \<longleftrightarrow>
     type part = lit ''text'' \<and>
     (case text' part of None \<Rightarrow> False | Some t \<Rightarrow> t \<noteq> [])"

text \<open>The map callback \<^verbatim>\<open>part.text!\<close>; \<^verbatim>\<open>join\<close> renders \<^verbatim>\<open>undefined\<close> as the empty
  string.\<close>

definition text_of_part :: "OpenAIContentPart \<Rightarrow> js_string" where
  "text_of_part part = (case text' part of None \<Rightarrow> [] | Some t \<Rightarrow> t)"

fun extractContent :: "content \<Rightarrow> js_error + js_string" where
  "extractContent (Text s) = Inr s"
| "extractContent (Parts parts) = Inr (join [] (map text_of_part (filter is_text_part parts)))"
| "extractContent (Other v) = ToString v"


section \<open>\<open>messagesToPrompt\<close> and \<open>openaiToCli\<close>\<close>

text \<open>The \<^verbatim>\<open>switch (msg.role)\<close> statement: what is pushed on \<open>parts\<close>.\<close>

definition switch_role :: "js_string list \<Rightarrow> js_string \<Rightarrow> js_string \<Rightarrow> js_string list" where
  "switch_role parts r text =
     (if r = lit ''system'' then
        parts @ [lit ''<system>\<newline>'' @ text @ lit ''\<newline></system>\<newline>'']
      else if r = lit ''user'' then
        parts @ [text]
      else if r = lit ''assistant'' then
        parts @ [lit ''<previous_response>\<newline>'' @ text @ lit ''\<newline></previous_response>\<newline>'']
      else parts)"

text \<open>The \<^verbatim>\<open>for ... of\<close> loop; an exception of \<open>extractContent\<close> leaves it.\<close>

fun for_messages :: "js_string list \<Rightarrow> OpenAIChatMessage list \<Rightarrow> js_error + js_string list" where
  "for_messages parts [] = Inr parts"
| "for_messages parts (msg # rest) =
     (case extractContent (content msg) of
        Inl e \<Rightarrow> Inl e
      | Inr text \<Rightarrow> for_messages (switch_role parts (role msg) text) rest)"

definition messagesToPrompt :: "OpenAIChatMessage list \<Rightarrow> js_error + js_string" where
  "messagesToPrompt msgs =
     (case for_messages [] msgs of
        Inl e \<Rightarrow> Inl e
      | Inr parts \<Rightarrow> Inr (trim (join (lit ''\<newline>'') parts)))"

definition openaiToCli :: "('n, 'z) OpenAIChatRequest_scheme \<Rightarrow> js_error + CliInput" where
  "openaiToCli request =
     (case messagesToPrompt (messages request) of
        Inl e \<Rightarrow> Inl e
      | Inr p \<Rightarrow>
          Inr \<lparr>prompt = p,
               model = extractModel (OpenAIChatRequest.model request),
               sessionId = user request\<rparr>)"


section \<open>Notions of the specification\<close>

text \<open>
  The specification's reading of a content that is a sequence of parts: the text
  payloads of the parts whose type is "text" and whose payload is present and not
  empty, concatenated in order.
\<close>

fun spec_text_payloads :: "OpenAIContentPart list \<Rightarrow> js_string" where
  "spec_text_payloads [] = []"
| "spec_text_payloads (part # rest) =
     (case text' part of
        Some t \<Rightarrow>
          if type part = lit ''text'' \<and> t \<noteq> [] then t @ spec_text_payloads rest
          else spec_text_payloads rest
      | None \<Rightarrow> spec_text_payloads rest)"

text \<open>The declared shape of a content: a string or a sequence of parts.\<close>

fun declared_shape :: "content \<Rightarrow> bool" where
  "declared_shape (Text s) = True"
| "declared_shape (Parts parts) = True"
| "declared_shape (Other v) = False"

text \<open>A content that is of the declared shape, or a value other than an object with an
  own property named \<^verbatim>\<open>toString\<close>.\<close>

fun coercible :: "content \<Rightarrow> bool" where
  "coercible (Other (JObject names)) = (lit ''toString'' \<notin> set names)"
| "coercible c = True"


section \<open>Facts about strings\<close>

lemma unat_unit_of: "unat (unit_of c) = of_char c"
proof -
  have "(of_char c :: nat) < 65536"
    using nat_of_char_less_256 [of c] by linarith
  then show ?thesis
    by (simp add: unit_of_def unat_of_nat)
qed

lemma unit_of_eq_iff [simp]: "unit_of a = unit_of b \<longleftrightarrow> a = b"
proof
  assume "unit_of a = unit_of b"
  then have "unat (unit_of a) = unat (unit_of b)" by simp
  then show "a = b" by (simp add: unat_unit_of)
qed simp

lemma lit_eq_iff [simp]: "lit a = lit b \<longleftrightarrow> a = b"
  unfolding lit_def by (simp add: inj_map_eq_map inj_def)

lemma lit_append: "lit a @ lit b = lit (a @ b)"
  by (simp add: lit_def)

lemma lit_Nil [simp]: "lit [] = []"
  by (simp add: lit_def)

lemma lit_eq_Nil [simp]: "lit s = [] \<longleftrightarrow> s = []"
  by (simp add: lit_def)

lemma length_lit [simp]: "length (lit s) = length s"
  by (simp add: lit_def)

lemma take_lit: "take n (lit s) = lit (take n s)"
  by (simp add: lit_def take_map)

lemma drop_lit: "drop n (lit s) = lit (drop n s)"
  by (simp add: lit_def drop_map)

lemma unit_of_eq_word: "unit_of c = w \<longleftrightarrow> of_char c = unat w"
  using unat_unit_of [of c] by (auto simp add: word_unat_eq_iff)

lemma unit_of_le_word: "unit_of c \<le> w \<longleftrightarrow> of_char c \<le> unat w"
  using unat_unit_of [of c] by (simp add: word_le_nat_alt)

lemma word_le_unit_of: "w \<le> unit_of c \<longleftrightarrow> unat w \<le> of_char c"
  using unat_unit_of [of c] by (simp add: word_le_nat_alt)

lemma is_whitespace_unit_of:
  "is_whitespace (unit_of c) \<longleftrightarrow>
     c \<in> {CHR 0x09, CHR 0x0A, CHR 0x0B, CHR 0x0C, CHR 0x0D, CHR 0x20, CHR 0xA0}"
proof -
  have small: "n < 256 \<Longrightarrow>
      (n = 9 \<or> n = 10 \<or> n = 11 \<or> n = 12 \<or> n = 13 \<or> n = 32 \<or> n = 160 \<or> n = 5760 \<or>
       8192 \<le> n \<and> n \<le> 8202 \<or> n = 8232 \<or> n = 8233 \<or> n = 8239 \<or> n = 8287 \<or>
       n = 12288 \<or> n = 65279) = (n \<in> {9, 10, 11, 12, 13, 32, 160})" for n :: nat
    by auto
  have "is_whitespace (unit_of c) \<longleftrightarrow> (of_char c :: nat) \<in> {9, 10, 11, 12, 13, 32, 160}"
    unfolding is_whitespace_def unit_of_eq_word unit_of_le_word word_le_unit_of
    using small [of "of_char c"] by simp
  also have "\<dots> \<longleftrightarrow> (of_char c :: nat) \<in>
      of_char ` {CHR 0x09, CHR 0x0A, CHR 0x0B, CHR 0x0C, CHR 0x0D, CHR 0x20, CHR 0xA0}"
    by simp
  also have "\<dots> \<longleftrightarrow> c \<in> {CHR 0x09, CHR 0x0A, CHR 0x0B, CHR 0x0C, CHR 0x0D, CHR 0x20, CHR 0xA0}"
    by (rule inj_image_mem_iff [OF inj_of_char])
  finally show ?thesis .
qed

lemma dropWhile_lit:
  "dropWhile is_whitespace (lit s) = lit (dropWhile (\<lambda>c. is_whitespace (unit_of c)) s)"
  by (simp add: lit_def dropWhile_map comp_def)

lemma rev_lit: "rev (lit s) = lit (rev s)"
  by (simp add: lit_def rev_map)

lemma trim_lit:
  "trim (lit s) =
     lit (rev (dropWhile (\<lambda>c. is_whitespace (unit_of c))
       (rev (dropWhile (\<lambda>c. is_whitespace (unit_of c)) s))))"
  by (simp add: trim_def dropWhile_lit rev_lit)

lemma trim_Nil [simp]: "trim [] = []"
  by (simp add: trim_def)

lemma join_empty_sep: "join [] xs = concat xs"
  by (induction xs rule: induct_list012) simp_all

lemma lit_append_left: "lit a @ lit b @ xs = lit (a @ b) @ xs"
  by (simp add: lit_def)

lemmas lit_eval = trim_lit is_whitespace_unit_of lit_append take_lit drop_lit


section \<open>Facts about \<open>extractModel\<close>\<close>

lemmas extractModel_eval =
  extractModel_def get_property_def MODEL_MAP_def Object_prototype_def replace_prefix_def
  Let_def take_lit drop_lit lit_append

lemma extractModel_keys:
  "list_all (\<lambda>(k, v). extractModel k = Str v \<and>
      extractModel (lit ''claude-code-cli/'' @ k) = Str v) MODEL_MAP"
  by (simp add: extractModel_eval)

lemma extractModel_table:
  "(k, v) \<in> set MODEL_MAP \<Longrightarrow> extractModel k = Str v"
  using extractModel_keys by (auto simp add: list_all_iff)

lemma extractModel_prefixed:
  "(k, v) \<in> set MODEL_MAP \<Longrightarrow> extractModel (lit ''claude-code-cli/'' @ k) = Str v"
  using extractModel_keys by (auto simp add: list_all_iff)

lemma get_property_cases:
  "get_property key = Undefined \<or> get_property key \<in> Str ` ClaudeModel \<or>
   (key \<in> set Object_prototype \<and> get_property key = Inherited key)"
  by (auto simp add: get_property_def MODEL_MAP_def ClaudeModel_def)

lemma extractModel_cases:
  "extractModel name \<in> Str ` ClaudeModel \<or>
   (\<exists>k \<in> set Object_prototype. extractModel name = Inherited k)"
proof -
  have truthy: "truthy (get_property key) \<longleftrightarrow> get_property key \<noteq> Undefined" for key
    using get_property_cases [of key] by (auto simp add: ClaudeModel_def)
  show ?thesis
    using get_property_cases [of name]
      get_property_cases [of "replace_prefix (lit ''claude-code-cli/'') name"]
    by (auto simp add: extractModel_def truthy Let_def ClaudeModel_def)
qed

lemma extractModel_default:
  assumes "map_of MODEL_MAP name = None" "name \<notin> set Object_prototype"
    and "map_of MODEL_MAP (replace_prefix (lit ''claude-code-cli/'') name) = None"
    and "replace_prefix (lit ''claude-code-cli/'') name \<notin> set Object_prototype"
  shows "extractModel name = Str (lit ''opus'')"
  using assms by (simp add: extractModel_def get_property_def)


section \<open>Facts about \<open>extractContent\<close>\<close>

lemma text_parts_payloads:
  "join [] (map text_of_part (filter is_text_part parts)) = spec_text_payloads parts"
  by (induction parts)
    (simp_all add: join_empty_sep is_text_part_def text_of_part_def split: option.splits)

lemma extractContent_declared:
  "declared_shape c \<Longrightarrow> \<exists>t. extractContent c = Inr t"
  by (cases c) simp_all

lemma extractContent_error_iff:
  "extractContent c = Inl TypeError \<longleftrightarrow> \<not> coercible c"
proof (cases c)
  case (Other v)
  then show ?thesis by (cases v) simp_all
qed simp_all

lemma extractContent_coercible:
  "coercible c \<Longrightarrow> \<exists>t. extractContent c = Inr t"
  using extractContent_error_iff [of c]
  by (cases "extractContent c") (auto intro: js_error.exhaust)

lemma declared_coercible: "declared_shape c \<Longrightarrow> coercible c"
  by (cases c) simp_all


section \<open>Facts about the loop\<close>

lemma switch_role_append: "switch_role parts r t = parts @ switch_role [] r t"
  by (simp add: switch_role_def)

lemma for_messages_fragments:
  "list_all2 (\<lambda>m t. extractContent (content m) = Inr t) msgs texts \<Longrightarrow>
     for_messages parts msgs =
       Inr (parts @ concat (map2 (\<lambda>m t. switch_role [] (role m) t) msgs texts))"
proof (induction msgs texts arbitrary: parts rule: list_all2_induct)
  case Nil
  then show ?case by simp
next
  case (Cons m msgs t texts)
  show ?case
    using Cons.hyps(1) Cons.IH [of "switch_role parts (role m) t"]
    by (simp add: switch_role_append [of parts])
qed

lemma for_messages_append:
  "for_messages parts (xs @ ys) =
     (case for_messages parts xs of Inl e \<Rightarrow> Inl e | Inr acc \<Rightarrow> for_messages acc ys)"
  by (induction xs arbitrary: parts) (simp_all split: sum.splits)

lemma for_messages_error_iff:
  "for_messages parts msgs = Inl TypeError \<longleftrightarrow> (\<exists>m \<in> set msgs. \<not> coercible (content m))"
proof (induction msgs arbitrary: parts)
  case Nil
  then show ?case by simp
next
  case (Cons m msgs)
  show ?case
  proof (cases "extractContent (content m)")
    case (Inl e)
    then have "\<not> coercible (content m)"
      using extractContent_error_iff [of "content m"] by (cases e) simp
    with Inl show ?thesis by (cases e) simp
  next
    case (Inr t)
    then have "coercible (content m)"
      using extractContent_error_iff [of "content m"] by auto
    with Inr Cons.IH show ?thesis by simp
  qed
qed

lemma messagesToPrompt_error_iff:
  "messagesToPrompt msgs = Inl TypeError \<longleftrightarrow> (\<exists>m \<in> set msgs. \<not> coercible (content m))"
proof -
  have "messagesToPrompt msgs = Inl TypeError \<longleftrightarrow> for_messages [] msgs = Inl TypeError"
    by (cases "for_messages [] msgs") (auto simp add: messagesToPrompt_def intro: js_error.exhaust)
  then show ?thesis by (simp add: for_messages_error_iff)
qed

lemma messagesToPrompt_returns:
  "\<forall>m \<in> set msgs. coercible (content m) \<Longrightarrow> \<exists>p. messagesToPrompt msgs = Inr p"
  using messagesToPrompt_error_iff [of msgs]
  by (cases "messagesToPrompt msgs") (auto intro: js_error.exhaust)

lemma extracted_texts:
  "list_all (\<lambda>m. coercible (content m)) msgs \<Longrightarrow>
     \<exists>texts. list_all2 (\<lambda>m t. extractContent (content m) = Inr t) msgs texts"
proof (induction msgs)
  case Nil
  then show ?case by simp
next
  case (Cons m msgs)
  then obtain texts where "list_all2 (\<lambda>m t. extractContent (content m) = Inr t) msgs texts"
    by auto
  moreover obtain t where "extractContent (content m) = Inr t"
    using Cons.prems extractContent_coercible [of "content m"] by auto
  ultimately have "list_all2 (\<lambda>m t. extractContent (content m) = Inr t) (m # msgs) (t # texts)"
    by simp
  then show ?case by blast
qed

lemmas prompt_eval =
  messagesToPrompt_def switch_role_def is_text_part_def text_of_part_def lit_eval


section \<open>The claims\<close>

text \<open>
  Claim C1. Every key of the table resolves to its alias, with and without the prefix
  \<^verbatim>\<open>claude-code-cli/\<close> (\<open>extractModel_table\<close>, \<open>extractModel_prefixed\<close>), and a
  name that is neither a key of the table nor a property of \<^verbatim>\<open>Object.prototype\<close>, before
  and after stripping, resolves to "opus" (\<open>extractModel_default\<close>). The default fails for
  the names that \<^verbatim>\<open>MODEL_MAP\<close> inherits: "toString" and "claude-code-cli/valueOf" match no
  key of the table, directly or stripped, and \<open>extractModel\<close> returns the inherited
  method for them, not "opus".
\<close>

theorem extractModel_inherited_not_default:
  "map_of MODEL_MAP (lit ''toString'') = None \<and>
   map_of MODEL_MAP (replace_prefix (lit ''claude-code-cli/'') (lit ''toString'')) = None \<and>
   extractModel (lit ''toString'') = Inherited (lit ''toString'') \<and>
   extractModel (lit ''toString'') \<noteq> Str (lit ''opus'') \<and>
   map_of MODEL_MAP (lit ''claude-code-cli/valueOf'') = None \<and>
   map_of MODEL_MAP (replace_prefix (lit ''claude-code-cli/'') (lit ''claude-code-cli/valueOf'')) = None \<and>
   extractModel (lit ''claude-code-cli/valueOf'') = Inherited (lit ''valueOf'') \<and>
   extractModel (lit ''claude-code-cli/valueOf'') \<noteq> Str (lit ''opus'')"
  by (simp add: extractModel_eval)

text \<open>
  Claim C2. The result of \<open>extractModel\<close> is one of "opus", "sonnet", "haiku" or an
  inherited member of \<^verbatim>\<open>Object.prototype\<close> (\<open>extractModel_cases\<close>), so it is not always
  in the three-element set: for the model name "constructor" it is the inherited
  constructor function, and \<open>openaiToCli\<close> puts that value in the \<open>model\<close> field of
  the CLI input.
\<close>

theorem extractModel_outside_ClaudeModel:
  "extractModel (lit ''constructor'') = Inherited (lit ''constructor'') \<and>
   extractModel (lit ''constructor'') \<notin> Str ` ClaudeModel \<and>
   openaiToCli
     (\<lparr>OpenAIChatRequest.model = lit ''constructor'',
       messages = [\<lparr>role = lit ''user'', content = Text (lit ''hello'')\<rparr>],
       stream = None, temperature = None, max_tokens = None, top_p = None,
       frequency_penalty = None, presence_penalty = None, user = None\<rparr>
      :: int OpenAIChatRequest)
   = Inr \<lparr>prompt = lit ''hello'', model = Inherited (lit ''constructor''), sessionId = None\<rparr>"
  by (simp add: extractModel_eval openaiToCli_def messagesToPrompt_def switch_role_def
      lit_eval ClaudeModel_def image_iff)

text \<open>
  Claim C3. For a content that is a sequence of parts, the extracted text is the
  concatenation, in order and with no separator, of the text payloads of the parts whose
  type is "text" and whose payload is present and not empty. A part of type "image_url"
  can be removed without changing the result. The parts text "a", image_url, text "b"
  give "ab", and a user message with this content flattens to "ab".
\<close>

theorem extractContent_parts:
  "extractContent (Parts parts) = Inr (spec_text_payloads parts) \<and>
   (type img = lit ''image_url'' \<longrightarrow>
      extractContent (Parts (before @ img # after)) = extractContent (Parts (before @ after))) \<and>
   extractContent (Parts
     [\<lparr>type = lit ''text'', text' = Some (lit ''a''), image_url = None\<rparr>,
      \<lparr>type = lit ''image_url'', text' = None,
        image_url = Some \<lparr>url = lit ''https://example.com/cat.png'', detail = None\<rparr>\<rparr>,
      \<lparr>type = lit ''text'', text' = Some (lit ''b''), image_url = None\<rparr>]) = Inr (lit ''ab'') \<and>
   messagesToPrompt [\<lparr>role = lit ''user'', content = Parts
     [\<lparr>type = lit ''text'', text' = Some (lit ''a''), image_url = None\<rparr>,
      \<lparr>type = lit ''image_url'', text' = None,
        image_url = Some \<lparr>url = lit ''https://example.com/cat.png'', detail = None\<rparr>\<rparr>,
      \<lparr>type = lit ''text'', text' = Some (lit ''b''), image_url = None\<rparr>]\<rparr>] = Inr (lit ''ab'')"
proof (intro conjI impI)
  show "extractContent (Parts parts) = Inr (spec_text_payloads parts)"
    by (simp add: text_parts_payloads)
next
  assume "type img = lit ''image_url''"
  then have "\<not> is_text_part img"
    by (simp add: is_text_part_def)
  then show "extractContent (Parts (before @ img # after)) = extractContent (Parts (before @ after))"
    by simp
qed (simp_all add: prompt_eval)

theorem extractContent_parts_witness:
  "type \<lparr>type = lit ''image_url'', text' = Some (lit ''x''), image_url = None\<rparr> = lit ''image_url'' \<and>
   extractContent (Parts
     ([\<lparr>type = lit ''text'', text' = Some (lit ''a''), image_url = None\<rparr>] @
      \<lparr>type = lit ''image_url'', text' = Some (lit ''x''), image_url = None\<rparr> #
      [\<lparr>type = lit ''text'', text' = None, image_url = None\<rparr>])) =
   extractContent (Parts
     ([\<lparr>type = lit ''text'', text' = Some (lit ''a''), image_url = None\<rparr>] @
      [\<lparr>type = lit ''text'', text' = None, image_url = None\<rparr>])) \<and>
   extractContent (Parts
     [\<lparr>type = lit ''text'', text' = Some (lit ''a''), image_url = None\<rparr>,
      \<lparr>type = lit ''text'', text' = None, image_url = None\<rparr>]) = Inr (lit ''a'')"
  using extractContent_parts
    [of "[\<lparr>type = lit ''text'', text' = Some (lit ''a''), image_url = None\<rparr>,
          \<lparr>type = lit ''text'', text' = None, image_url = None\<rparr>]"
        "\<lparr>type = lit ''image_url'', text' = Some (lit ''x''), image_url = None\<rparr>"
        "[\<lparr>type = lit ''text'', text' = Some (lit ''a''), image_url = None\<rparr>]"
        "[\<lparr>type = lit ''text'', text' = None, image_url = None\<rparr>]"]
  by simp



text \<open>
  Claim C5. The text of every message of the declared shape can be extracted, and when
  the texts of the messages are extracted, \<open>messagesToPrompt\<close> is the fragments of the
  messages, in message order, joined with one newline and trimmed. The empty list gives
  the empty string. A system message "S" followed by a user message "U" gives the system
  block, an empty line, then "U".
\<close>

theorem messagesToPrompt_join_trim:
  "(list_all (\<lambda>m. declared_shape (content m)) msgs \<longrightarrow>
      (\<exists>texts. list_all2 (\<lambda>m t. extractContent (content m) = Inr t) msgs texts)) \<and>
   (list_all2 (\<lambda>m t. extractContent (content m) = Inr t) msgs texts \<longrightarrow>
      messagesToPrompt msgs =
        Inr (trim (join (lit ''\<newline>'')
          (concat (map2 (\<lambda>m t. switch_role [] (role m) t) msgs texts))))) \<and>
   messagesToPrompt [] = Inr [] \<and>
   messagesToPrompt
     [\<lparr>role = lit ''system'', content = Text (lit ''S'')\<rparr>,
      \<lparr>role = lit ''user'', content = Text (lit ''U'')\<rparr>] =
     Inr (lit ''<system>\<newline>S\<newline></system>\<newline>\<newline>U'')"
proof (intro conjI impI)
  assume "list_all (\<lambda>m. declared_shape (content m)) msgs"
  then have "list_all (\<lambda>m. coercible (content m)) msgs"
    by (simp add: list_all_iff declared_coercible)
  then show "\<exists>texts. list_all2 (\<lambda>m t. extractContent (content m) = Inr t) msgs texts"
    by (rule extracted_texts)
next
  assume "list_all2 (\<lambda>m t. extractContent (content m) = Inr t) msgs texts"
  then show "messagesToPrompt msgs =
      Inr (trim (join (lit ''\<newline>'')
        (concat (map2 (\<lambda>m t. switch_role [] (role m) t) msgs texts))))"
    by (simp add: messagesToPrompt_def for_messages_fragments)
qed (simp_all add: prompt_eval)

theorem messagesToPrompt_join_trim_witness:
  "list_all (\<lambda>m. declared_shape (content m))
     [\<lparr>role = lit ''assistant'', content = Text (lit ''A'')\<rparr>,
      \<lparr>role = lit ''tool'', content = Text (lit ''T'')\<rparr>,
      \<lparr>role = lit ''user'', content = Text (lit '' U '')\<rparr>] \<and>
   list_all2 (\<lambda>m t. extractContent (content m) = Inr t)
     [\<lparr>role = lit ''assistant'', content = Text (lit ''A'')\<rparr>,
      \<lparr>role = lit ''tool'', content = Text (lit ''T'')\<rparr>,
      \<lparr>role = lit ''user'', content = Text (lit '' U '')\<rparr>]
     [lit ''A'', lit ''T'', lit '' U ''] \<and>
   messagesToPrompt
     [\<lparr>role = lit ''assistant'', content = Text (lit ''A'')\<rparr>,
      \<lparr>role = lit ''tool'', content = Text (lit ''T'')\<rparr>,
      \<lparr>role = lit ''user'', content = Text (lit '' U '')\<rparr>] =
     Inr (lit ''<previous_response>\<newline>A\<newline></previous_response>\<newline>\<newline> U'')"
  using messagesToPrompt_join_trim
    [of "[\<lparr>role = lit ''assistant'', content = Text (lit ''A'')\<rparr>,
          \<lparr>role = lit ''tool'', content = Text (lit ''T'')\<rparr>,
          \<lparr>role = lit ''user'', content = Text (lit '' U '')\<rparr>]"
        "[lit ''A'', lit ''T'', lit '' U '']"]
  by (simp add: switch_role_def lit_eval)

text \<open>
  Claim C6. For a request whose contents are of the declared shape, \<open>messagesToPrompt\<close>
  returns a prompt and \<open>openaiToCli\<close> returns exactly the record of that prompt, of
  \<open>extractModel\<close> applied to the model string, and of the user field as the session
  identifier: "abc" when the user is "abc", absent when the user is absent.
\<close>

theorem openaiToCli_record:
  assumes "list_all (\<lambda>m. declared_shape (content m)) (messages request)"
  shows "\<exists>p. messagesToPrompt (messages request) = Inr p \<and>
     openaiToCli request =
       Inr \<lparr>prompt = p, model = extractModel (OpenAIChatRequest.model request),
            sessionId = user request\<rparr> \<and>
     openaiToCli (request\<lparr>user := Some (lit ''abc'')\<rparr>) =
       Inr \<lparr>prompt = p, model = extractModel (OpenAIChatRequest.model request),
            sessionId = Some (lit ''abc'')\<rparr> \<and>
     openaiToCli (request\<lparr>user := None\<rparr>) =
       Inr \<lparr>prompt = p, model = extractModel (OpenAIChatRequest.model request),
            sessionId = None\<rparr>"
proof -
  from assms have "\<forall>m \<in> set (messages request). coercible (content m)"
    by (simp add: list_all_iff declared_coercible)
  then obtain p where "messagesToPrompt (messages request) = Inr p"
    using messagesToPrompt_returns by blast
  then show ?thesis
    by (simp add: openaiToCli_def)
qed

theorem openaiToCli_record_witness:
  "list_all (\<lambda>m. declared_shape (content m))
     (messages
       (\<lparr>OpenAIChatRequest.model = lit ''claude-sonnet-4'',
         messages = [\<lparr>role = lit ''user'', content = Text (lit ''hello'')\<rparr>],
         stream = None, temperature = None, max_tokens = None, top_p = None,
         frequency_penalty = None, presence_penalty = None,
         user = Some (lit ''abc'')\<rparr> :: int OpenAIChatRequest)) \<and>
   openaiToCli
     (\<lparr>OpenAIChatRequest.model = lit ''claude-sonnet-4'',
       messages = [\<lparr>role = lit ''user'', content = Text (lit ''hello'')\<rparr>],
       stream = None, temperature = None, max_tokens = None, top_p = None,
       frequency_penalty = None, presence_penalty = None,
       user = Some (lit ''abc'')\<rparr> :: int OpenAIChatRequest) =
     Inr \<lparr>prompt = lit ''hello'', model = Str (lit ''sonnet''), sessionId = Some (lit ''abc'')\<rparr> \<and>
   openaiToCli
     (\<lparr>OpenAIChatRequest.model = lit ''claude-sonnet-4'',
       messages = [\<lparr>role = lit ''user'', content = Text (lit ''hello'')\<rparr>],
       stream = None, temperature = None, max_tokens = None, top_p = None,
       frequency_penalty = None, presence_penalty = None,
       user = None\<rparr> :: int OpenAIChatRequest) =
     Inr \<lparr>prompt = lit ''hello'', model = Str (lit ''sonnet''), sessionId = None\<rparr>"
  using openaiToCli_record
    [of "\<lparr>OpenAIChatRequest.model = lit ''claude-sonnet-4'',
         messages = [\<lparr>role = lit ''user'', content = Text (lit ''hello'')\<rparr>],
         stream = None, temperature = None, max_tokens = None, top_p = None,
         frequency_penalty = None, presence_penalty = None,
         user = Some (lit ''abc'')\<rparr> :: int OpenAIChatRequest"]
  by (simp add: prompt_eval extractModel_eval)

text \<open>
  Claim C7. \<open>openaiToCli\<close> is a function of the model, the messages and the user of
  the request: two requests that agree on these three fields give the same result,
  whatever their other fields are, and changing stream, temperature, max_tokens, top_p,
  frequency_penalty and presence_penalty of a request does not change the result.
\<close>

theorem openaiToCli_reads_three_fields:
  "(OpenAIChatRequest.model r1 = OpenAIChatRequest.model r2 \<and>
    messages r1 = messages r2 \<and> user r1 = user r2 \<longrightarrow>
      openaiToCli r1 = openaiToCli r2) \<and>
   openaiToCli (r\<lparr>stream := s, temperature := t, max_tokens := mt, top_p := tp,
     frequency_penalty := fp, presence_penalty := pp\<rparr>) = openaiToCli r"
  by (auto simp add: openaiToCli_def split: sum.splits)

theorem openaiToCli_reads_three_fields_witness:
  "OpenAIChatRequest.model
     (\<lparr>OpenAIChatRequest.model = lit ''haiku'',
       messages = [\<lparr>role = lit ''user'', content = Text (lit ''hi'')\<rparr>],
       stream = None, temperature = None, max_tokens = None, top_p = None,
       frequency_penalty = None, presence_penalty = None,
       user = Some (lit ''u1'')\<rparr> :: int OpenAIChatRequest) =
   OpenAIChatRequest.model
     (\<lparr>OpenAIChatRequest.model = lit ''haiku'',
       messages = [\<lparr>role = lit ''user'', content = Text (lit ''hi'')\<rparr>],
       stream = Some True, temperature = Some 2, max_tokens = Some 100, top_p = Some 1,
       frequency_penalty = Some 0, presence_penalty = Some (- 1),
       user = Some (lit ''u1'')\<rparr> :: int OpenAIChatRequest) \<and>
   (\<lparr>OpenAIChatRequest.model = lit ''haiku'',
       messages = [\<lparr>role = lit ''user'', content = Text (lit ''hi'')\<rparr>],
       stream = None, temperature = None, max_tokens = None, top_p = None,
       frequency_penalty = None, presence_penalty = None,
       user = Some (lit ''u1'')\<rparr> :: int OpenAIChatRequest) \<noteq>
   \<lparr>OpenAIChatRequest.model = lit ''haiku'',
       messages = [\<lparr>role = lit ''user'', content = Text (lit ''hi'')\<rparr>],
       stream = Some True, temperature = Some 2, max_tokens = Some 100, top_p = Some 1,
       frequency_penalty = Some 0, presence_penalty = Some (- 1),
       user = Some (lit ''u1'')\<rparr> \<and>
   openaiToCli
     (\<lparr>OpenAIChatRequest.model = lit ''haiku'',
       messages = [\<lparr>role = lit ''user'', content = Text (lit ''hi'')\<rparr>],
       stream = None, temperature = None, max_tokens = None, top_p = None,
       frequency_penalty = None, presence_penalty = None,
       user = Some (lit ''u1'')\<rparr> :: int OpenAIChatRequest) =
   openaiToCli
     (\<lparr>OpenAIChatRequest.model = lit ''haiku'',
       messages = [\<lparr>role = lit ''user'', content = Text (lit ''hi'')\<rparr>],
       stream = Some True, temperature = Some 2, max_tokens = Some 100, top_p = Some 1,
       frequency_penalty = Some 0, presence_penalty = Some (- 1),
       user = Some (lit ''u1'')\<rparr> :: int OpenAIChatRequest)"
  using openaiToCli_reads_three_fields
    [of "\<lparr>OpenAIChatRequest.model = lit ''haiku'',
         messages = [\<lparr>role = lit ''user'', content = Text (lit ''hi'')\<rparr>],
         stream = None, temperature = None, max_tokens = None, top_p = None,
         frequency_penalty = None, presence_penalty = None,
         user = Some (lit ''u1'')\<rparr> :: int OpenAIChatRequest"
        "\<lparr>OpenAIChatRequest.model = lit ''haiku'',
         messages = [\<lparr>role = lit ''user'', content = Text (lit ''hi'')\<rparr>],
         stream = Some True, temperature = Some 2, max_tokens = Some 100, top_p = Some 1,
         frequency_penalty = Some 0, presence_penalty = Some (- 1),
         user = Some (lit ''u1'')\<rparr> :: int OpenAIChatRequest",
      THEN conjunct1]
  by simp

text \<open>
  Claim C8, as stated, fails: a content that is an object with an own property named
  \<^verbatim>\<open>toString\<close>, as the JSON text \<^verbatim>\<open>{"toString": null}\<close> gives, is neither a string nor
  an array, and \<^verbatim>\<open>String(content)\<close> raises \<^verbatim>\<open>TypeError\<close> for it; the exception leaves
  \<open>extractContent\<close>, \<open>messagesToPrompt\<close> and \<open>openaiToCli\<close>.
\<close>

theorem extractContent_object_raises:
  "extractContent (Other (JObject [lit ''toString''])) = Inl TypeError \<and>
   messagesToPrompt
     [\<lparr>role = lit ''user'', content = Other (JObject [lit ''toString''])\<rparr>] = Inl TypeError \<and>
   openaiToCli
     (\<lparr>OpenAIChatRequest.model = lit ''opus'',
       messages = [\<lparr>role = lit ''user'', content = Other (JObject [lit ''toString''])\<rparr>],
       stream = None, temperature = None, max_tokens = None, top_p = None,
       frequency_penalty = None, presence_penalty = None, user = None\<rparr>
      :: int OpenAIChatRequest) = Inl TypeError"
  by (simp add: openaiToCli_def messagesToPrompt_def)

text \<open>
  Claim C8, amended. Every request of the declared shape is converted. A content that
  is neither a string nor a sequence of parts is coerced to its textual representation
  when it is \<^verbatim>\<open>undefined\<close>, \<^verbatim>\<open>null\<close>, a boolean, a number or an object without an own
  property named \<^verbatim>\<open>toString\<close>: "undefined", "null", "true", "false", the rendering of
  the number, "[object Object]"; a request that departs from the declared shape only by
  such contents is converted too. For an object with an own \<^verbatim>\<open>toString\<close> property the
  extraction raises \<^verbatim>\<open>TypeError\<close>, and so does the conversion of a request with such a
  content. Nothing is said about other departures from the declared shape.
\<close>

theorem conversion_returns_when_coercible:
  "(list_all (\<lambda>m. declared_shape (content m)) (messages request) \<longrightarrow>
      (\<exists>c. openaiToCli request = Inr c)) \<and>
   (list_all (\<lambda>m. coercible (content m)) (messages request) \<longrightarrow>
      (\<exists>c. openaiToCli request = Inr c)) \<and>
   (\<not> list_all (\<lambda>m. coercible (content m)) (messages request) \<longrightarrow>
      openaiToCli request = Inl TypeError) \<and>
   extractContent (Other JUndefined) = Inr (lit ''undefined'') \<and>
   extractContent (Other JNull) = Inr (lit ''null'') \<and>
   extractContent (Other (JBoolean True)) = Inr (lit ''true'') \<and>
   extractContent (Other (JBoolean False)) = Inr (lit ''false'') \<and>
   extractContent (Other (JNumber rendering)) = Inr rendering \<and>
   (lit ''toString'' \<notin> set names \<longrightarrow>
      extractContent (Other (JObject names)) = Inr (lit ''[object Object]'')) \<and>
   (lit ''toString'' \<in> set props \<longrightarrow>
      extractContent (Other (JObject props)) = Inl TypeError)"
proof -
  have returns: "\<exists>c. openaiToCli request = Inr c"
    if "list_all (\<lambda>m. coercible (content m)) (messages request)"
  proof -
    from that obtain p where "messagesToPrompt (messages request) = Inr p"
      using messagesToPrompt_returns [of "messages request"] by (auto simp add: list_all_iff)
    then show ?thesis
      by (simp add: openaiToCli_def)
  qed
  have raises: "openaiToCli request = Inl TypeError"
    if "\<not> list_all (\<lambda>m. coercible (content m)) (messages request)"
  proof -
    from that have "messagesToPrompt (messages request) = Inl TypeError"
      by (simp add: messagesToPrompt_error_iff list_all_iff)
    then show ?thesis
      by (simp add: openaiToCli_def)
  qed
  have "list_all (\<lambda>m. coercible (content m)) (messages request)"
    if "list_all (\<lambda>m. declared_shape (content m)) (messages request)"
    using that by (simp add: list_all_iff declared_coercible)
  with returns raises show ?thesis
    by simp
qed

theorem conversion_returns_when_coercible_witness:
  "list_all (\<lambda>m. declared_shape (content m))
     [\<lparr>role = lit ''user'', content = Text (lit ''hi'')\<rparr>,
      \<lparr>role = lit ''user'', content = Parts []\<rparr>] \<and>
   openaiToCli
     (\<lparr>OpenAIChatRequest.model = lit ''opus'',
       messages =
         [\<lparr>role = lit ''user'', content = Text (lit ''hi'')\<rparr>,
          \<lparr>role = lit ''user'', content = Parts []\<rparr>],
       stream = None, temperature = None, max_tokens = None, top_p = None,
       frequency_penalty = None, presence_penalty = None, user = None\<rparr>
      :: int OpenAIChatRequest) =
     Inr \<lparr>prompt = lit ''hi'', model = Str (lit ''opus''), sessionId = None\<rparr> \<and>
   list_all (\<lambda>m. coercible (content m))
     [\<lparr>role = lit ''system'', content = Other JNull\<rparr>,
      \<lparr>role = lit ''user'', content = Other (JObject [lit ''valueOf'', lit ''a''])\<rparr>] \<and>
   openaiToCli
     (\<lparr>OpenAIChatRequest.model = lit ''opus'',
       messages =
         [\<lparr>role = lit ''system'', content = Other JNull\<rparr>,
          \<lparr>role = lit ''user'', content = Other (JObject [lit ''valueOf'', lit ''a''])\<rparr>],
       stream = None, temperature = None, max_tokens = None, top_p = None,
       frequency_penalty = None, presence_penalty = None, user = None\<rparr>
      :: int OpenAIChatRequest) =
     Inr \<lparr>prompt = lit ''<system>\<newline>null\<newline></system>\<newline>\<newline>[object Object]'',
          model = Str (lit ''opus''), sessionId = None\<rparr> \<and>
   \<not> list_all (\<lambda>m. coercible (content m))
     [\<lparr>role = lit ''user'', content = Text (lit ''hi'')\<rparr>,
      \<lparr>role = lit ''user'', content = Other (JObject [lit ''a'', lit ''toString''])\<rparr>] \<and>
   openaiToCli
     (\<lparr>OpenAIChatRequest.model = lit ''opus'',
       messages =
         [\<lparr>role = lit ''user'', content = Text (lit ''hi'')\<rparr>,
          \<lparr>role = lit ''user'', content = Other (JObject [lit ''a'', lit ''toString''])\<rparr>],
       stream = None, temperature = None, max_tokens = None, top_p = None,
       frequency_penalty = None, presence_penalty = None, user = None\<rparr>
      :: int OpenAIChatRequest) = Inl TypeError \<and>
   lit ''toString'' \<notin> set [lit ''valueOf'', lit ''a''] \<and>
   extractContent (Other (JObject [lit ''valueOf'', lit ''a''])) = Inr (lit ''[object Object]'') \<and>
   lit ''toString'' \<in> set [lit ''a'', lit ''toString''] \<and>
   extractContent (Other (JObject [lit ''a'', lit ''toString''])) = Inl TypeError"
  using
    conversion_returns_when_coercible
      [where request =
         "\<lparr>OpenAIChatRequest.model = lit ''opus'',
           messages =
             [\<lparr>role = lit ''user'', content = Text (lit ''hi'')\<rparr>,
              \<lparr>role = lit ''user'', content = Parts []\<rparr>],
           stream = None, temperature = None, max_tokens = None, top_p = None,
           frequency_penalty = None, presence_penalty = None, user = None\<rparr>
          :: int OpenAIChatRequest"
        and rendering = "[]" and names = "[lit ''valueOf'', lit ''a'']"
        and props = "[lit ''a'', lit ''toString'']"]
    conversion_returns_when_coercible
      [where request =
         "\<lparr>OpenAIChatRequest.model = lit ''opus'',
           messages =
             [\<lparr>role = lit ''system'', content = Other JNull\<rparr>,
              \<lparr>role = lit ''user'', content = Other (JObject [lit ''valueOf'', lit ''a''])\<rparr>],
           stream = None, temperature = None, max_tokens = None, top_p = None,
           frequency_penalty = None, presence_penalty = None, user = None\<rparr>
          :: int OpenAIChatRequest"
        and rendering = "[]" and names = "[lit ''valueOf'', lit ''a'']"
        and props = "[lit ''a'', lit ''toString'']"]
    conversion_returns_when_coercible
      [where request =
         "\<lparr>OpenAIChatRequest.model = lit ''opus'',
           messages =
             [\<lparr>role = lit ''user'', content = Text (lit ''hi'')\<rparr>,
              \<lparr>role = lit ''user'', content = Other (JObject [lit ''a'', lit ''toString''])\<rparr>],
           stream = None, temperature = None, max_tokens = None, top_p = None,
           frequency_penalty = None, presence_penalty = None, user = None\<rparr>
          :: int OpenAIChatRequest"
        and rendering = "[]" and names = "[lit ''valueOf'', lit ''a'']"
        and props = "[lit ''a'', lit ''toString'']"]
  by (simp add: openaiToCli_def prompt_eval extractModel_eval)



text \<open>
  Claim C10. Every user message whose extracted text is empty pushes an empty
  fragment, at any place in the list of messages, where a message of an unknown role
  pushes nothing. So between the user messages "a" and "b" such a message gives "a", an
  empty line, "b", while "a", "b" alone, or with an unknown-role message between them,
  give "a" and "b" on consecutive lines.
\<close>

theorem empty_user_message_keeps_blank_line:
  assumes "role msg = lit ''user''" and "extractContent (content msg) = Inr []"
  shows
    "for_messages parts (msg # rest) = for_messages (parts @ [[]]) rest \<and>
     for_messages parts [msg] = Inr (parts @ [[]]) \<and>
     (for_messages parts earlier = Inr acc \<longrightarrow>
        for_messages parts (earlier @ msg # rest) = for_messages (acc @ [[]]) rest) \<and>
     messagesToPrompt
       [\<lparr>role = lit ''user'', content = Text a\<rparr>, msg, \<lparr>role = lit ''user'', content = Text b\<rparr>] =
       Inr (trim (a @ lit ''\<newline>\<newline>'' @ b)) \<and>
     messagesToPrompt
       [\<lparr>role = lit ''user'', content = Text a\<rparr>, \<lparr>role = lit ''user'', content = Text b\<rparr>] =
       Inr (trim (a @ lit ''\<newline>'' @ b)) \<and>
     messagesToPrompt
       [\<lparr>role = lit ''user'', content = Text (lit ''a'')\<rparr>, msg,
        \<lparr>role = lit ''user'', content = Text (lit ''b'')\<rparr>] = Inr (lit ''a\<newline>\<newline>b'') \<and>
     messagesToPrompt
       [\<lparr>role = lit ''user'', content = Text (lit ''a'')\<rparr>,
        \<lparr>role = lit ''user'', content = Text (lit ''b'')\<rparr>] = Inr (lit ''a\<newline>b'') \<and>
     (role other \<notin> {lit ''system'', lit ''user'', lit ''assistant''} \<and>
      extractContent (content other) = Inr t \<longrightarrow>
        for_messages parts (other # rest) = for_messages parts rest \<and>
        messagesToPrompt
          [\<lparr>role = lit ''user'', content = Text a\<rparr>, other,
           \<lparr>role = lit ''user'', content = Text b\<rparr>] =
          Inr (trim (a @ lit ''\<newline>'' @ b)) \<and>
        messagesToPrompt
          [\<lparr>role = lit ''user'', content = Text (lit ''a'')\<rparr>, other,
           \<lparr>role = lit ''user'', content = Text (lit ''b'')\<rparr>] = Inr (lit ''a\<newline>b''))"
  using assms by (simp add: for_messages_append prompt_eval lit_append_left)

theorem empty_user_message_keeps_blank_line_witness:
  "role \<lparr>role = lit ''user'', content = Parts []\<rparr> = lit ''user'' \<and>
   extractContent (content \<lparr>role = lit ''user'', content = Parts []\<rparr>) = Inr [] \<and>
   for_messages [] [\<lparr>role = lit ''user'', content = Text (lit ''a'')\<rparr>] = Inr [lit ''a''] \<and>
   for_messages []
     [\<lparr>role = lit ''user'', content = Text (lit ''a'')\<rparr>,
      \<lparr>role = lit ''user'', content = Parts []\<rparr>,
      \<lparr>role = lit ''user'', content = Text (lit ''b'')\<rparr>] = Inr [lit ''a'', [], lit ''b''] \<and>
   messagesToPrompt
     [\<lparr>role = lit ''user'', content = Text (lit ''a'')\<rparr>,
      \<lparr>role = lit ''user'', content = Parts []\<rparr>,
      \<lparr>role = lit ''user'', content = Text (lit ''b'')\<rparr>] = Inr (lit ''a\<newline>\<newline>b'') \<and>
   lit ''tool'' \<notin> {lit ''system'', lit ''user'', lit ''assistant''} \<and>
   extractContent (content \<lparr>role = lit ''tool'', content = Text (lit '''')\<rparr>) = Inr [] \<and>
   messagesToPrompt
     [\<lparr>role = lit ''user'', content = Text (lit ''a'')\<rparr>,
      \<lparr>role = lit ''tool'', content = Text (lit '''')\<rparr>,
      \<lparr>role = lit ''user'', content = Text (lit ''b'')\<rparr>] = Inr (lit ''a\<newline>b'')"
  using empty_user_message_keeps_blank_line
    [where msg = "\<lparr>role = lit ''user'', content = Parts []\<rparr>"
       and parts = "[]" and rest = "[\<lparr>role = lit ''user'', content = Text (lit ''b'')\<rparr>]"
       and earlier = "[\<lparr>role = lit ''user'', content = Text (lit ''a'')\<rparr>]" and acc = "[lit ''a'']"
       and a = "lit ''a''" and b = "lit ''b''"
       and other = "\<lparr>role = lit ''tool'', content = Text (lit '''')\<rparr>" and t = "[]"]
  by (simp add: switch_role_def lit_eval)

end
